theory Spec2Isabelle
  imports Complex_Main
begin

section \<open>JavaScript numbers, as the analytics code uses them\<close>

text \<open>
  The analytics methods of \<^verbatim>\<open>server/storage.ts\<close> and \<^verbatim>\<open>server/mock-storage.ts\<close>
  compute with JavaScript numbers obtained from decimal strings by \<^verbatim>\<open>parseFloat\<close>.
  A number is modelled as an exact rational, one of the two infinities, or NaN.
  Binary rounding, overflow to an infinity and the sign of zero are not modelled: a
  finite result is the exact result.
\<close>

datatype number = Num rat | PInf | NInf | NaN

fun js_neg :: "number \<Rightarrow> number" where
  "js_neg (Num a) = Num (- a)"
| "js_neg PInf = NInf"
| "js_neg NInf = PInf"
| "js_neg NaN = NaN"

fun js_abs :: "number \<Rightarrow> number" where
  "js_abs (Num a) = Num \<bar>a\<bar>"
| "js_abs PInf = PInf"
| "js_abs NInf = PInf"
| "js_abs NaN = NaN"

fun js_add :: "number \<Rightarrow> number \<Rightarrow> number" where
  "js_add NaN y = NaN"
| "js_add x NaN = NaN"
| "js_add (Num a) (Num b) = Num (a + b)"
| "js_add PInf NInf = NaN"
| "js_add NInf PInf = NaN"
| "js_add PInf y = PInf"
| "js_add NInf y = NInf"
| "js_add (Num a) y = y"

definition js_sub :: "number \<Rightarrow> number \<Rightarrow> number" where
  "js_sub x y = js_add x (js_neg y)"

text \<open>\<^verbatim>\<open>x > y\<close>: false as soon as one side is NaN.\<close>

fun js_gt :: "number \<Rightarrow> number \<Rightarrow> bool" where
  "js_gt NaN y = False"
| "js_gt x NaN = False"
| "js_gt (Num a) (Num b) = (b < a)"
| "js_gt PInf PInf = False"
| "js_gt PInf y = True"
| "js_gt NInf y = False"
| "js_gt (Num a) NInf = True"
| "js_gt (Num a) PInf = False"

text \<open>\<^verbatim>\<open>x <= y\<close>, used only to state properties: the code never evaluates it.\<close>

fun js_le :: "number \<Rightarrow> number \<Rightarrow> bool" where
  "js_le NaN y = False"
| "js_le x NaN = False"
| "js_le x y = (\<not> js_gt x y)"

fun js_mul :: "number \<Rightarrow> number \<Rightarrow> number" where
  "js_mul NaN y = NaN"
| "js_mul x NaN = NaN"
| "js_mul (Num a) (Num b) = Num (a * b)"
| "js_mul (Num a) PInf = (if a = 0 then NaN else if 0 < a then PInf else NInf)"
| "js_mul (Num a) NInf = (if a = 0 then NaN else if 0 < a then NInf else PInf)"
| "js_mul PInf (Num b) = (if b = 0 then NaN else if 0 < b then PInf else NInf)"
| "js_mul NInf (Num b) = (if b = 0 then NaN else if 0 < b then NInf else PInf)"
| "js_mul PInf PInf = PInf"
| "js_mul NInf NInf = PInf"
| "js_mul PInf NInf = NInf"
| "js_mul NInf PInf = NInf"

text \<open>
  \<^verbatim>\<open>x / y\<close>. A zero divisor is taken as the positive zero; the analytics code divides
  only behind a test that the divisor is greater than zero.
\<close>

fun js_div :: "number \<Rightarrow> number \<Rightarrow> number" where
  "js_div NaN y = NaN"
| "js_div x NaN = NaN"
| "js_div (Num a) (Num b) =
     (if b = 0 then (if a = 0 then NaN else if 0 < a then PInf else NInf) else Num (a / b))"
| "js_div (Num a) PInf = Num 0"
| "js_div (Num a) NInf = Num 0"
| "js_div PInf (Num b) = (if 0 \<le> b then PInf else NInf)"
| "js_div NInf (Num b) = (if 0 \<le> b then NInf else PInf)"
| "js_div PInf y = NaN"
| "js_div NInf y = NaN"

text \<open>Truthiness of a number, for \<^verbatim>\<open>x || 0\<close>: zero and NaN are falsy.\<close>

fun truthy :: "number \<Rightarrow> bool" where
  "truthy (Num a) = (a \<noteq> 0)"
| "truthy NaN = False"
| "truthy x = True"

definition js_sum :: "number list \<Rightarrow> number" where
  "js_sum xs = foldl js_add (Num 0) xs"

fun isNum :: "number \<Rightarrow> bool" where
  "isNum (Num a) = True"
| "isNum x = False"

fun ratOf :: "number \<Rightarrow> rat" where
  "ratOf (Num a) = a"
| "ratOf x = 0"

subsection \<open>parseFloat\<close>

text \<open>
  \<^verbatim>\<open>parseFloat\<close> skips leading white space, then reads the longest prefix that is a
  decimal literal: an optional sign, then \<^verbatim>\<open>Infinity\<close> or digits with an optional
  fraction and an optional exponent. What follows the literal is ignored; with no
  literal the result is NaN. Strings are byte strings here, so only the ASCII white
  space characters are skipped.
\<close>

definition isWhiteSpace :: "char \<Rightarrow> bool" where
  "isWhiteSpace c = (c \<in> set [CHR '' '', CHR 0x09, CHR 0x0A, CHR 0x0B, CHR 0x0C, CHR 0x0D])"

definition isDigit :: "char \<Rightarrow> bool" where
  "isDigit c = (c \<in> set ''0123456789'')"

text \<open>The value of a digit: its position in the string of the ten digits.\<close>

definition digitVal :: "char \<Rightarrow> nat" where
  "digitVal c = length (takeWhile (\<lambda>d. d \<noteq> c) ''0123456789'')"

definition digitsVal :: "string \<Rightarrow> nat" where
  "digitsVal ds = foldl (\<lambda>n c. 10 * n + digitVal c) 0 ds"

definition pow10 :: "int \<Rightarrow> rat" where
  "pow10 e = (if 0 \<le> e then 10 ^ nat e else 1 / 10 ^ nat (- e))"

text \<open>The exponent part, read from what follows the mantissa; 0 when there is none.\<close>

definition parseExponent :: "string \<Rightarrow> int" where
  "parseExponent s =
     (case s of
        [] \<Rightarrow> 0
      | c # r \<Rightarrow>
          if c = CHR ''e'' \<or> c = CHR ''E'' then
            (let neg = (case r of [] \<Rightarrow> False | d # _ \<Rightarrow> d = CHR ''-'');
                 signed = (case r of [] \<Rightarrow> False | d # _ \<Rightarrow> d = CHR ''-'' \<or> d = CHR ''+'');
                 ds = takeWhile isDigit (if signed then tl r else r)
             in if ds = [] then 0
                else if neg then - int (digitsVal ds) else int (digitsVal ds))
          else 0)"

definition parseUnsigned :: "string \<Rightarrow> number" where
  "parseUnsigned s =
     (if take 8 s = ''Infinity'' then PInf
      else
        (let ip = takeWhile isDigit s;
             r1 = dropWhile isDigit s;
             dot = (case r1 of [] \<Rightarrow> False | c # _ \<Rightarrow> c = CHR ''.'');
             fp = (if dot then takeWhile isDigit (tl r1) else []);
             r2 = (if dot then dropWhile isDigit (tl r1) else r1)
         in if ip = [] \<and> fp = [] then NaN
            else Num ((of_nat (digitsVal ip) + of_nat (digitsVal fp) / 10 ^ length fp)
                      * pow10 (parseExponent r2))))"

definition parseFloat :: "string \<Rightarrow> number" where
  "parseFloat s =
     (let t = dropWhile isWhiteSpace s
      in case t of
           [] \<Rightarrow> NaN
         | c # r \<Rightarrow>
             if c = CHR ''-'' then js_neg (parseUnsigned r)
             else if c = CHR ''+'' then parseUnsigned r
             else parseUnsigned t)"

section \<open>Data model\<close>

text \<open>
  The rows of the tables \<^verbatim>\<open>accounts\<close> and \<^verbatim>\<open>transactions\<close> of the schema, with
  the columns the analytics read. Decimal columns are strings; \<^verbatim>\<open>category\<close> is the one
  nullable column among them.

  A \<^verbatim>\<open>Date\<close> is given by its fields in server-local time: \<^verbatim>\<open>getFullYear()\<close>,
  \<^verbatim>\<open>getMonth()\<close> (0 to 11), \<^verbatim>\<open>getDate()\<close> (from 1) and the milliseconds elapsed since
  local midnight. Dates are compared by their time value, which for well-formed fields
  on a local clock without shifts is the lexicographic order of the fields.
\<close>

record Date =
  getFullYear :: int
  getMonth :: nat
  getDate :: nat
  msOfDay :: nat

record Account =
  account_id :: string
  account_userId :: string
  account_type :: string
  account_balance :: string
  account_isActive :: bool

record Transaction =
  transaction_id :: string
  transaction_userId :: string
  transaction_amount :: string
  transaction_category :: "string option"
  transaction_date :: Date
  transaction_type :: string

definition date_le :: "Date \<Rightarrow> Date \<Rightarrow> bool" where
  "date_le a b =
     (getFullYear a < getFullYear b \<or>
      (getFullYear a = getFullYear b \<and>
       (getMonth a < getMonth b \<or>
        (getMonth a = getMonth b \<and>
         (getDate a < getDate b \<or>
          (getDate a = getDate b \<and> msOfDay a \<le> msOfDay b))))))"

definition date_ge :: "Date \<Rightarrow> Date \<Rightarrow> bool" where
  "date_ge a b = date_le b a"

definition isLeapYear :: "int \<Rightarrow> bool" where
  "isLeapYear y = (y mod 4 = 0 \<and> (y mod 400 = 0 \<or> y mod 100 \<noteq> 0))"

definition daysInMonth :: "int \<Rightarrow> nat \<Rightarrow> nat" where
  "daysInMonth y m =
     (if m = 1 then (if isLeapYear y then 29 else 28)
      else if m = 3 \<or> m = 5 \<or> m = 8 \<or> m = 10 then 30
      else 31)"

text \<open>
  \<^verbatim>\<open>new Date(now.getFullYear(), now.getMonth(), 1)\<close>: the first day of the month of
  \<^verbatim>\<open>now\<close>, at local midnight.
\<close>

definition startOfMonth :: "Date \<Rightarrow> Date" where
  "startOfMonth now =
     \<lparr>getFullYear = getFullYear now, getMonth = getMonth now, getDate = 1, msOfDay = 0\<rparr>"

text \<open>
  \<^verbatim>\<open>new Date(now.getFullYear(), now.getMonth() + 1, 0)\<close>: day 0 of the next month is
  the last day of the month of \<^verbatim>\<open>now\<close>; no time of day is given, so the time is
  local midnight, the first instant of that day.
\<close>

definition endOfMonth :: "Date \<Rightarrow> Date" where
  "endOfMonth now =
     \<lparr>getFullYear = getFullYear now, getMonth = getMonth now,
      getDate = daysInMonth (getFullYear now) (getMonth now), msOfDay = 0\<rparr>"

text \<open>\<^verbatim>\<open>s || d\<close> on a string: the empty string is falsy.\<close>

definition strOr :: "string \<Rightarrow> string \<Rightarrow> string" where
  "strOr s d = (if s = [] then d else s)"

text \<open>\<^verbatim>\<open>s || d\<close> on a nullable string: null and the empty string are falsy.\<close>

definition nullableOr :: "string option \<Rightarrow> string \<Rightarrow> string" where
  "nullableOr s d = (case s of None \<Rightarrow> d | Some v \<Rightarrow> strOr v d)"

section \<open>getFinancialSummary\<close>

record FinancialSummary =
  totalBalance :: number
  monthlyBurn :: number
  monthlyRevenue :: number
  runwayMonths :: number

text \<open>
  \<^verbatim>\<open>DatabaseStorage.getFinancialSummary\<close>. The two tables are the lists of their rows,
  the \<^verbatim>\<open>where\<close> clauses are filters that keep the order of the rows (the queries
  ask for no order), and \<^verbatim>\<open>now\<close> is the clock reading \<^verbatim>\<open>new Date()\<close>.
\<close>

definition DatabaseStorage_getFinancialSummary ::
    "Account list \<Rightarrow> Transaction list \<Rightarrow> Date \<Rightarrow> string \<Rightarrow> FinancialSummary" where
  "DatabaseStorage_getFinancialSummary accounts transactions now userId =
     (let accountsData = filter (\<lambda>a. account_userId a = userId) accounts;
          totalBalance' = foldl (\<lambda>sum account.
              js_add sum (parseFloat (strOr (account_balance account) ''0''))) (Num 0) accountsData;
          monthlyTransactions = filter (\<lambda>t.
              transaction_userId t = userId \<and>
              date_ge (transaction_date t) (startOfMonth now) \<and>
              date_le (transaction_date t) (endOfMonth now)) transactions;
          monthlyExpenses = foldl (\<lambda>sum t.
              js_add sum (js_abs (parseFloat (transaction_amount t)))) (Num 0)
              (filter (\<lambda>t. transaction_type t = ''expense'') monthlyTransactions);
          monthlyRevenue' = foldl (\<lambda>sum t.
              js_add sum (parseFloat (transaction_amount t))) (Num 0)
              (filter (\<lambda>t. transaction_type t = ''income'') monthlyTransactions);
          monthlyBurn' = js_sub monthlyExpenses monthlyRevenue';
          runwayMonths' =
            (if js_gt monthlyBurn' (Num 0) then js_div totalBalance' monthlyBurn' else Num 999)
      in \<lparr>totalBalance = totalBalance', monthlyBurn = monthlyBurn',
          monthlyRevenue = monthlyRevenue', runwayMonths = runwayMonths'\<rparr>)"

text \<open>
  \<^verbatim>\<open>MockStorage.getFinancialSummary\<close>, over the arrays \<^verbatim>\<open>this.accounts\<close> and
  \<^verbatim>\<open>this.transactions\<close>.
\<close>

definition MockStorage_getFinancialSummary ::
    "Account list \<Rightarrow> Transaction list \<Rightarrow> Date \<Rightarrow> string \<Rightarrow> FinancialSummary" where
  "MockStorage_getFinancialSummary accounts transactions now userId =
     (let userAccounts = filter (\<lambda>a. account_userId a = userId) accounts;
          totalBalance' = foldl (\<lambda>sum account.
              js_add sum (parseFloat (strOr (account_balance account) ''0''))) (Num 0) userAccounts;
          monthlyTransactions = filter (\<lambda>t.
              transaction_userId t = userId \<and>
              date_ge (transaction_date t) (startOfMonth now) \<and>
              date_le (transaction_date t) (endOfMonth now)) transactions;
          monthlyExpenses = foldl (\<lambda>sum t.
              js_add sum (js_abs (parseFloat (transaction_amount t)))) (Num 0)
              (filter (\<lambda>t. transaction_type t = ''expense'') monthlyTransactions);
          monthlyRevenue' = foldl (\<lambda>sum t.
              js_add sum (parseFloat (transaction_amount t))) (Num 0)
              (filter (\<lambda>t. transaction_type t = ''income'') monthlyTransactions);
          monthlyBurn' = js_sub monthlyExpenses monthlyRevenue';
          runwayMonths' =
            (if js_gt monthlyBurn' (Num 0) then js_div totalBalance' monthlyBurn' else Num 999)
      in \<lparr>totalBalance = totalBalance', monthlyBurn = monthlyBurn',
          monthlyRevenue = monthlyRevenue', runwayMonths = runwayMonths'\<rparr>)"

section \<open>getExpenseBreakdown\<close>

subsection \<open>The object categoryTotals\<close>

text \<open>
  The accumulator \<^verbatim>\<open>categoryTotals\<close> starts as the object literal \<^verbatim>\<open>{}\<close> and is used
  as a dictionary from category to running total. Its own properties are kept as an
  association list in creation order. An object literal inherits from
  \<^verbatim>\<open>Object.prototype\<close>, so reading a key that is not an own property finds the
  inherited member of that name when there is one: a method for the names below, and
  for \<^verbatim>\<open>__proto__\<close> the accessor, whose getter returns the prototype object.
\<close>

definition objectPrototypeMethods :: "string list" where
  "objectPrototypeMethods =
     [''constructor'', ''__defineGetter__'', ''__defineSetter__'', ''hasOwnProperty'',
      ''__lookupGetter__'', ''__lookupSetter__'', ''isPrototypeOf'',
      ''propertyIsEnumerable'', ''toString'', ''valueOf'', ''toLocaleString'']"

text \<open>
  The value of an own property: a number, or a string. A string arises only when
  the operator \<^verbatim>\<open>+\<close> meets an inherited member, which it turns into text and
  concatenates; the characters of such a string are not modelled. It holds the source
  text of a function, so it is not empty and it does not read as a number.
\<close>

datatype propval = Number number | Text

datatype getResult = Undefined | Value propval | Inherited

definition getProp :: "(string \<times> propval) list \<Rightarrow> string \<Rightarrow> getResult" where
  "getProp acc k =
     (case map_of acc k of
        Some v \<Rightarrow> Value v
      | None \<Rightarrow>
          if k = ''__proto__'' \<or> k \<in> set objectPrototypeMethods then Inherited else Undefined)"

fun setOwn :: "string \<Rightarrow> propval \<Rightarrow> (string \<times> propval) list \<Rightarrow> (string \<times> propval) list" where
  "setOwn k v [] = [(k, v)]"
| "setOwn k v (p # ps) = (if fst p = k then (k, v) # ps else p # setOwn k v ps)"

text \<open>
  The assignment \<^verbatim>\<open>acc[k] = v\<close> of a number or a string. The key \<^verbatim>\<open>__proto__\<close>
  reaches the inherited setter, which ignores a value that is neither an object nor
  null; every other key becomes or stays an own property.
\<close>

definition setProp ::
    "(string \<times> propval) list \<Rightarrow> string \<Rightarrow> propval \<Rightarrow> (string \<times> propval) list" where
  "setProp acc k v = (if k = ''__proto__'' then acc else setOwn k v acc)"

text \<open>
  The expression \<^verbatim>\<open>(acc[category] || 0) + amount\<close>. Undefined, zero and NaN are falsy
  and give way to 0; a string or an inherited member is truthy, and the sum is then a
  concatenation.
\<close>

fun orZeroPlus :: "getResult \<Rightarrow> number \<Rightarrow> propval" where
  "orZeroPlus Undefined amount = Number (js_add (Num 0) amount)"
| "orZeroPlus (Value (Number n)) amount =
     Number (js_add (if truthy n then n else Num 0) amount)"
| "orZeroPlus (Value Text) amount = Text"
| "orZeroPlus Inherited amount = Text"

text \<open>The sum of two property values: addition of numbers, else concatenation.\<close>

fun val_add :: "propval \<Rightarrow> propval \<Rightarrow> propval" where
  "val_add (Number a) (Number b) = Number (js_add a b)"
| "val_add x y = Text"

text \<open>The conversion to a number made by a comparison or a division.\<close>

fun toNumber :: "propval \<Rightarrow> number" where
  "toNumber (Number n) = n"
| "toNumber Text = NaN"

text \<open>
  \<^verbatim>\<open>Object.values\<close> and \<^verbatim>\<open>Object.entries\<close> list the own properties: first the keys
  that are array indices (canonical decimal integers below \<open>2^32 - 1\<close>) in ascending
  numeric order, then the other keys in creation order.
\<close>

definition isArrayIndex :: "string \<Rightarrow> bool" where
  "isArrayIndex k =
     (k \<noteq> [] \<and> list_all isDigit k \<and> (k = ''0'' \<or> hd k \<noteq> CHR ''0'') \<and>
      digitsVal k < 4294967295)"

definition ownEntries :: "(string \<times> propval) list \<Rightarrow> (string \<times> propval) list" where
  "ownEntries acc =
     sort_key (\<lambda>e. digitsVal (fst e)) (filter (\<lambda>e. isArrayIndex (fst e)) acc) @
     filter (\<lambda>e. \<not> isArrayIndex (fst e)) acc"

subsection \<open>The two implementations\<close>

record BreakdownEntry =
  category :: string
  amount :: propval
  percentage :: number

text \<open>
  The reducer that builds \<^verbatim>\<open>categoryTotals\<close>; both classes pass the same callback.
\<close>

definition categoryTotalsStep ::
    "(string \<times> propval) list \<Rightarrow> Transaction \<Rightarrow> (string \<times> propval) list" where
  "categoryTotalsStep acc transaction =
     (let category' = nullableOr (transaction_category transaction) ''Uncategorized'';
          amount' = js_abs (parseFloat (transaction_amount transaction))
      in setProp acc category' (orZeroPlus (getProp acc category') amount'))"

text \<open>
  The entry built for one property of \<^verbatim>\<open>categoryTotals\<close>, given \<^verbatim>\<open>totalExpenses\<close>.
\<close>

definition breakdownEntry :: "propval \<Rightarrow> string \<times> propval \<Rightarrow> BreakdownEntry" where
  "breakdownEntry totalExpenses e =
     \<lparr>category = fst e, amount = snd e,
      percentage =
        (if js_gt (toNumber totalExpenses) (Num 0)
         then js_mul (js_div (toNumber (snd e)) (toNumber totalExpenses)) (Num 100)
         else Num 0)\<rparr>"

definition DatabaseStorage_getExpenseBreakdown ::
    "Transaction list \<Rightarrow> Date \<Rightarrow> string \<Rightarrow> BreakdownEntry list" where
  "DatabaseStorage_getExpenseBreakdown transactions now userId =
     (let expenseTransactions = filter (\<lambda>t.
              transaction_userId t = userId \<and>
              transaction_type t = ''expense'' \<and>
              date_ge (transaction_date t) (startOfMonth now) \<and>
              date_le (transaction_date t) (endOfMonth now)) transactions;
          categoryTotals = foldl categoryTotalsStep [] expenseTransactions;
          totalExpenses = foldl val_add (Number (Num 0)) (map snd (ownEntries categoryTotals))
      in map (breakdownEntry totalExpenses) (ownEntries categoryTotals))"

definition MockStorage_getExpenseBreakdown ::
    "Transaction list \<Rightarrow> Date \<Rightarrow> string \<Rightarrow> BreakdownEntry list" where
  "MockStorage_getExpenseBreakdown transactions now userId =
     (let expenseTransactions = filter (\<lambda>t.
              transaction_userId t = userId \<and>
              transaction_type t = ''expense'' \<and>
              date_ge (transaction_date t) (startOfMonth now) \<and>
              date_le (transaction_date t) (endOfMonth now)) transactions;
          categoryTotals = foldl categoryTotalsStep [] expenseTransactions;
          totalExpenses = foldl val_add (Number (Num 0)) (map snd (ownEntries categoryTotals))
      in map (breakdownEntry totalExpenses) (ownEntries categoryTotals))"

section \<open>Notions used to state the properties\<close>

text \<open>The calendar month of \<^verbatim>\<open>now\<close>: same year, same month.\<close>

definition sameMonth :: "Date \<Rightarrow> Date \<Rightarrow> bool" where
  "sameMonth now d = (getFullYear d = getFullYear now \<and> getMonth d = getMonth now)"

text \<open>A date whose fields are those of a real local date.\<close>

definition validDate :: "Date \<Rightarrow> bool" where
  "validDate d =
     (getMonth d < 12 \<and> 1 \<le> getDate d \<and> getDate d \<le> daysInMonth (getFullYear d) (getMonth d) \<and>
      msOfDay d < 86400000)"

text \<open>
  The rows both methods select for the month: those of the user whose date lies
  between \<^verbatim>\<open>startOfMonth\<close> and \<^verbatim>\<open>endOfMonth\<close>, bounds included.
\<close>

definition monthlyTransactions :: "Transaction list \<Rightarrow> Date \<Rightarrow> string \<Rightarrow> Transaction list" where
  "monthlyTransactions transactions now userId =
     filter (\<lambda>t. transaction_userId t = userId \<and>
                 date_ge (transaction_date t) (startOfMonth now) \<and>
                 date_le (transaction_date t) (endOfMonth now)) transactions"

text \<open>The sum of the absolute parsed amounts of the expense rows of a list.\<close>

definition sumExpenses :: "Transaction list \<Rightarrow> number" where
  "sumExpenses ts =
     js_sum (map (\<lambda>t. js_abs (parseFloat (transaction_amount t)))
                 (filter (\<lambda>t. transaction_type t = ''expense'') ts))"

text \<open>The sum of the parsed amounts, sign kept, of the income rows of a list.\<close>

definition sumIncome :: "Transaction list \<Rightarrow> number" where
  "sumIncome ts =
     js_sum (map (\<lambda>t. parseFloat (transaction_amount t))
                 (filter (\<lambda>t. transaction_type t = ''income'') ts))"

text \<open>The sum of the group totals of a breakdown, as numbers.\<close>

definition totalOfGroups :: "BreakdownEntry list \<Rightarrow> number" where
  "totalOfGroups es = toNumber (foldl val_add (Number (Num 0)) (map amount es))"


text \<open>The label under which the reducer files a transaction.\<close>

definition groupLabel :: "Transaction \<Rightarrow> string" where
  "groupLabel t = nullableOr (transaction_category t) ''Uncategorized''"

text \<open>The absolute parsed amount of a transaction.\<close>

definition absAmount :: "Transaction \<Rightarrow> number" where
  "absAmount t = js_abs (parseFloat (transaction_amount t))"

text \<open>The sum of the absolute amounts of the rows of a list filed under a label.\<close>

definition groupSum :: "Transaction list \<Rightarrow> string \<Rightarrow> rat" where
  "groupSum ts k = sum_list (map (\<lambda>t. ratOf (absAmount t)) (filter (\<lambda>t. groupLabel t = k) ts))"

text \<open>
  The accumulator holds, under distinct keys, exactly the labels of the rows \<open>ps\<close>,
  each with the sum of its rows.
\<close>

definition groupsOf :: "(string \<times> propval) list \<Rightarrow> Transaction list \<Rightarrow> bool" where
  "groupsOf acc ps =
     (distinct (map fst acc) \<and>
      (\<forall>k. map_of acc k =
        (if k \<in> groupLabel ` set ps then Some (Number (Num (groupSum ps k))) else None)))"

subsection \<open>Rows for the worked examples\<close>

definition mkDate :: "int \<Rightarrow> nat \<Rightarrow> nat \<Rightarrow> nat \<Rightarrow> Date" where
  "mkDate y m d ms = \<lparr>getFullYear = y, getMonth = m, getDate = d, msOfDay = ms\<rparr>"

definition mkAccount :: "string \<Rightarrow> string \<Rightarrow> bool \<Rightarrow> Account" where
  "mkAccount userId balance isActive =
     \<lparr>account_id = [], account_userId = userId, account_type = ''checking'',
      account_balance = balance, account_isActive = isActive\<rparr>"

definition mkTransaction ::
    "string \<Rightarrow> string \<Rightarrow> string \<Rightarrow> string option \<Rightarrow> Date \<Rightarrow> Transaction" where
  "mkTransaction userId ty amt cat d =
     \<lparr>transaction_id = [], transaction_userId = userId, transaction_amount = amt,
      transaction_category = cat, transaction_date = d, transaction_type = ty\<rparr>"

section \<open>Auxiliary facts\<close>

lemmas parse_defs = parseFloat_def parseUnsigned_def parseExponent_def isWhiteSpace_def
  isDigit_def digitsVal_def digitVal_def pow10_def

lemmas date_defs = date_le_def date_ge_def startOfMonth_def endOfMonth_def daysInMonth_def
  isLeapYear_def

lemmas row_defs = mkAccount_def mkTransaction_def mkDate_def Let_def

text \<open>The decimal strings of the worked examples, parsed.\<close>

lemma parseFloat_balances:
  "parseFloat ''45000.00'' = Num 45000"
  "parseFloat ''125000.00'' = Num 125000"
  "parseFloat ''999.00'' = Num 999"
  "parseFloat ''0'' = Num 0"
  by (simp_all add: parse_defs)

lemma parseFloat_amounts:
  "parseFloat ''-2847.00'' = Num (- 2847)"
  "parseFloat ''2847.00'' = Num 2847"
  "parseFloat ''-6000.00'' = Num (- 6000)"
  "parseFloat ''1000.00'' = Num 1000"
  "parseFloat ''-2000.00'' = Num (- 2000)"
  "parseFloat ''500.00'' = Num 500"
  "parseFloat ''1.00'' = Num 1"
  by (simp_all add: parse_defs)

lemmas parsed = parseFloat_balances parseFloat_amounts

text \<open>The fields of the summary, read off the definition.\<close>

lemma summary_fields:
  "totalBalance (DatabaseStorage_getFinancialSummary accounts transactions now userId) =
     js_sum (map (\<lambda>a. parseFloat (strOr (account_balance a) ''0''))
                 (filter (\<lambda>a. account_userId a = userId) accounts))"
  "monthlyRevenue (DatabaseStorage_getFinancialSummary accounts transactions now userId) =
     sumIncome (monthlyTransactions transactions now userId)"
  "monthlyBurn (DatabaseStorage_getFinancialSummary accounts transactions now userId) =
     js_sub (sumExpenses (monthlyTransactions transactions now userId))
            (sumIncome (monthlyTransactions transactions now userId))"
  "runwayMonths (DatabaseStorage_getFinancialSummary accounts transactions now userId) =
     (if js_gt (monthlyBurn (DatabaseStorage_getFinancialSummary accounts transactions now userId)) (Num 0)
      then js_div (totalBalance (DatabaseStorage_getFinancialSummary accounts transactions now userId))
                  (monthlyBurn (DatabaseStorage_getFinancialSummary accounts transactions now userId))
      else Num 999)"
  by (simp_all add: DatabaseStorage_getFinancialSummary_def Let_def js_sum_def sumIncome_def
      sumExpenses_def monthlyTransactions_def foldl_map)

lemma Mock_summary_eq:
  "MockStorage_getFinancialSummary = DatabaseStorage_getFinancialSummary"
  by (intro ext)
     (simp add: MockStorage_getFinancialSummary_def DatabaseStorage_getFinancialSummary_def)

lemma Mock_breakdown_eq:
  "MockStorage_getExpenseBreakdown = DatabaseStorage_getExpenseBreakdown"
  by (intro ext)
     (simp add: MockStorage_getExpenseBreakdown_def DatabaseStorage_getExpenseBreakdown_def)

lemma js_le_not_gt: "js_le x y \<Longrightarrow> \<not> js_gt x y"
  by (cases x; cases y) auto

section \<open>The month's rows\<close>

lemma month_range_sameMonth:
  "date_ge d (startOfMonth now) \<Longrightarrow> date_le d (endOfMonth now) \<Longrightarrow> sameMonth now d"
  by (auto simp: date_ge_def date_le_def startOfMonth_def endOfMonth_def sameMonth_def)

lemma month_range_iff:
  assumes "validDate d"
  shows "(date_ge d (startOfMonth now) \<and> date_le d (endOfMonth now)) =
         (sameMonth now d \<and>
          (getDate d < daysInMonth (getFullYear now) (getMonth now) \<or> msOfDay d = 0))"
proof (cases "sameMonth now d")
  case False
  then show ?thesis using month_range_sameMonth by blast
next
  case True
  then have y: "getFullYear d = getFullYear now" and m: "getMonth d = getMonth now"
    by (simp_all add: sameMonth_def)
  from assms y m have lo: "1 \<le> getDate d"
    and hi: "getDate d \<le> daysInMonth (getFullYear now) (getMonth now)"
    by (simp_all add: validDate_def)
  have ge: "date_ge d (startOfMonth now)"
    using lo y m by (simp add: date_ge_def date_le_def startOfMonth_def) arith
  have le: "date_le d (endOfMonth now) =
        (getDate d < daysInMonth (getFullYear now) (getMonth now) \<or> msOfDay d = 0)"
    using hi y m by (simp add: date_le_def endOfMonth_def) arith
  from ge le True show ?thesis by simp
qed

lemma monthlyTransactions_append:
  "monthlyTransactions (xs @ ys) now userId =
     monthlyTransactions xs now userId @ monthlyTransactions ys now userId"
  by (simp add: monthlyTransactions_def)

lemma monthlyTransactions_Cons:
  "monthlyTransactions (t # ts) now userId =
     (if transaction_userId t = userId \<and> date_ge (transaction_date t) (startOfMonth now) \<and>
         date_le (transaction_date t) (endOfMonth now)
      then t # monthlyTransactions ts now userId else monthlyTransactions ts now userId)"
  by (simp add: monthlyTransactions_def)

lemma summary_cong:
  assumes "filter (\<lambda>t. transaction_type t = ''expense'') (monthlyTransactions ts now userId) =
           filter (\<lambda>t. transaction_type t = ''expense'') (monthlyTransactions ts' now userId)"
      and "filter (\<lambda>t. transaction_type t = ''income'') (monthlyTransactions ts now userId) =
           filter (\<lambda>t. transaction_type t = ''income'') (monthlyTransactions ts' now userId)"
  shows "DatabaseStorage_getFinancialSummary accounts ts now userId =
         DatabaseStorage_getFinancialSummary accounts ts' now userId"
  using assms
  by (simp add: DatabaseStorage_getFinancialSummary_def monthlyTransactions_def)

lemma breakdown_expenses:
  "DatabaseStorage_getExpenseBreakdown transactions now userId =
     (let categoryTotals = foldl categoryTotalsStep []
            (filter (\<lambda>t. transaction_type t = ''expense'') (monthlyTransactions transactions now userId));
          totalExpenses = foldl val_add (Number (Num 0)) (map snd (ownEntries categoryTotals))
      in map (breakdownEntry totalExpenses) (ownEntries categoryTotals))"
proof -
  have "filter (\<lambda>t. transaction_userId t = userId \<and> transaction_type t = ''expense'' \<and>
                     date_ge (transaction_date t) (startOfMonth now) \<and>
                     date_le (transaction_date t) (endOfMonth now)) transactions =
        filter (\<lambda>t. transaction_type t = ''expense'') (monthlyTransactions transactions now userId)"
    by (simp add: monthlyTransactions_def conj_ac)
  then show ?thesis
    by (simp add: DatabaseStorage_getExpenseBreakdown_def)
qed

section \<open>The accumulator and its sums\<close>

lemma ownEntries_Nil: "ownEntries [] = []"
  by (simp add: ownEntries_def)

subsection \<open>Sums of finite values\<close>

lemma isNum_conv: "isNum n \<longleftrightarrow> (\<exists>r. n = Num r)"
  by (cases n) auto



lemma foldl_val_add_finite:
  "\<forall>v \<in> set vs. \<exists>r. v = Number (Num r) \<Longrightarrow>
   foldl val_add (Number (Num a)) vs = Number (Num (a + sum_list (map (\<lambda>v. ratOf (toNumber v)) vs)))"
proof (induction vs arbitrary: a)
  case Nil
  then show ?case by simp
next
  case (Cons v vs)
  then obtain r where v: "v = Number (Num r)" by auto
  from Cons.prems have "\<forall>v \<in> set vs. \<exists>r. v = Number (Num r)" by simp
  from Cons.IH [OF this, of "a + r"] show ?case by (simp add: v add.assoc)
qed

lemma foldl_js_add_finite:
  "foldl js_add (Num a) (map Num rs) = Num (a + sum_list rs)"
  by (induction rs arbitrary: a) (simp_all add: add.assoc)

subsection \<open>The totals stay finite numbers or strings\<close>

lemma set_setOwn: "set (setOwn k v acc) \<subseteq> insert (k, v) (set acc)"
  by (induction acc) auto

lemma set_ownEntries: "set (ownEntries acc) = set acc"
  by (auto simp: ownEntries_def)




lemma amount_breakdownEntry:
  "map amount (map (breakdownEntry tot) es) = map snd es"
  "map (amount \<circ> breakdownEntry tot) es = map snd es"
  by (simp_all add: breakdownEntry_def o_def)

lemma sum_list_insort_key:
  "sum_list (map g (insort_key f x xs)) = g x + sum_list (map g xs)"
  for g :: "'a \<Rightarrow> rat"
  by (induction xs) (simp_all add: add.left_commute)

lemma sum_list_sort_key:
  "sum_list (map g (sort_key f xs)) = sum_list (map g xs)"
  for g :: "'a \<Rightarrow> rat"
  by (induction xs) (simp_all add: sum_list_insort_key)

lemma sum_list_filter_split:
  "sum_list (map g (filter P xs)) + sum_list (map g (filter (\<lambda>x. \<not> P x) xs)) = sum_list (map g xs)"
  for g :: "'a \<Rightarrow> rat"
  by (induction xs) simp_all

lemma sum_list_ownEntries:
  "sum_list (map g (ownEntries acc)) = sum_list (map g acc)"
  for g :: "string \<times> propval \<Rightarrow> rat"
  by (simp add: ownEntries_def sum_list_sort_key sum_list_filter_split)

lemma map_of_setOwn: "map_of (setOwn k v acc) = (map_of acc)(k \<mapsto> v)"
  by (induction acc) (auto simp: fun_eq_iff)

lemma sum_setOwn_new:
  "map_of acc k = None \<Longrightarrow>
   sum_list (map (\<lambda>e. ratOf (toNumber (snd e))) (setOwn k v acc)) =
   sum_list (map (\<lambda>e. ratOf (toNumber (snd e))) acc) + ratOf (toNumber v)"
  by (induction acc) (auto split: if_splits)

lemma sum_setOwn_old:
  "map_of acc k = Some w \<Longrightarrow>
   sum_list (map (\<lambda>e. ratOf (toNumber (snd e))) (setOwn k v acc)) =
   sum_list (map (\<lambda>e. ratOf (toNumber (snd e))) acc) - ratOf (toNumber w) + ratOf (toNumber v)"
  by (induction acc) (auto split: if_splits)

section \<open>The runway and its sentinel\<close>

text \<open>
  Claim C1, as amended. In both implementations: when \<open>monthlyBurn > 0\<close> the field
  \<open>runwayMonths\<close> is \<open>totalBalance / monthlyBurn\<close>; when \<open>monthlyBurn \<le> 0\<close> it is the
  sentinel 999, and nothing is divided; and a runway other than 999 means that
  \<open>monthlyBurn > 0\<close>. The converse readings of the claim's two equivalences are not
  part of the statement: they fail when the quotient is itself 999.
\<close>

theorem C1_runway_guarded:
  assumes "getFinancialSummary = DatabaseStorage_getFinancialSummary \<or>
           getFinancialSummary = MockStorage_getFinancialSummary"
  shows "(js_gt (monthlyBurn (getFinancialSummary accounts transactions now userId)) (Num 0) \<longrightarrow>
            runwayMonths (getFinancialSummary accounts transactions now userId) =
              js_div (totalBalance (getFinancialSummary accounts transactions now userId))
                     (monthlyBurn (getFinancialSummary accounts transactions now userId))) \<and>
         (js_le (monthlyBurn (getFinancialSummary accounts transactions now userId)) (Num 0) \<longrightarrow>
            runwayMonths (getFinancialSummary accounts transactions now userId) = Num 999) \<and>
         (runwayMonths (getFinancialSummary accounts transactions now userId) \<noteq> Num 999 \<longrightarrow>
            js_gt (monthlyBurn (getFinancialSummary accounts transactions now userId)) (Num 0))"
proof -
  have db: "getFinancialSummary = DatabaseStorage_getFinancialSummary"
    using assms by (auto simp: Mock_summary_eq)
  show ?thesis
    unfolding db using summary_fields(4) [of accounts transactions now userId]
    by (auto dest: js_le_not_gt)
qed

text \<open>
  The theorem at the spec's second scenario: balances 45000 and 125000, expenses 6000
  and revenue 1000 in the month, so a burn of 5000 and a runway of 34 months.
\<close>

theorem C1_runway_guarded_witness:
  "js_gt (monthlyBurn (MockStorage_getFinancialSummary
       [mkAccount ''u1'' ''45000.00'' True, mkAccount ''u1'' ''125000.00'' True]
       [mkTransaction ''u1'' ''expense'' ''-6000.00'' (Some ''Engineering'') (mkDate 2024 0 10 0),
        mkTransaction ''u1'' ''income'' ''1000.00'' (Some ''Revenue'') (mkDate 2024 0 12 0)]
       (mkDate 2024 0 15 43200000) ''u1'')) (Num 0) \<and>
   runwayMonths (MockStorage_getFinancialSummary
       [mkAccount ''u1'' ''45000.00'' True, mkAccount ''u1'' ''125000.00'' True]
       [mkTransaction ''u1'' ''expense'' ''-6000.00'' (Some ''Engineering'') (mkDate 2024 0 10 0),
        mkTransaction ''u1'' ''income'' ''1000.00'' (Some ''Revenue'') (mkDate 2024 0 12 0)]
       (mkDate 2024 0 15 43200000) ''u1'') = Num 34"
  using C1_runway_guarded [of MockStorage_getFinancialSummary
       "[mkAccount ''u1'' ''45000.00'' True, mkAccount ''u1'' ''125000.00'' True]"
       "[mkTransaction ''u1'' ''expense'' ''-6000.00'' (Some ''Engineering'') (mkDate 2024 0 10 0),
        mkTransaction ''u1'' ''income'' ''1000.00'' (Some ''Revenue'') (mkDate 2024 0 12 0)]"
       "mkDate 2024 0 15 43200000" "''u1''"]
  by (simp add: MockStorage_getFinancialSummary_def row_defs strOr_def parsed date_defs js_sub_def)

text \<open>
  The claim as stated fails: with one account of balance 999 and one expense of 1 in
  the month, the burn is 1, which is greater than zero, and the runway is
  \<open>999 / 1\<close>, the sentinel value.
\<close>

theorem C1_sentinel_counterexample:
  "\<not> (runwayMonths (DatabaseStorage_getFinancialSummary
          [mkAccount ''u1'' ''999.00'' True]
          [mkTransaction ''u1'' ''expense'' ''1.00'' (Some ''Engineering'') (mkDate 2024 0 10 0)]
          (mkDate 2024 0 15 43200000) ''u1'') = Num 999
       \<longleftrightarrow>
       js_le (monthlyBurn (DatabaseStorage_getFinancialSummary
          [mkAccount ''u1'' ''999.00'' True]
          [mkTransaction ''u1'' ''expense'' ''1.00'' (Some ''Engineering'') (mkDate 2024 0 10 0)]
          (mkDate 2024 0 15 43200000) ''u1'')) (Num 0))"
  by (simp add: DatabaseStorage_getFinancialSummary_def row_defs strOr_def parsed date_defs
      js_sub_def)

section \<open>The month's range\<close>

text \<open>
  Claim C2 says that a transaction is aggregated exactly when its date lies in the
  calendar month of \<^verbatim>\<open>now\<close>, through the last day at 23:59. The upper bound
  \<^verbatim>\<open>endOfMonth\<close> of both implementations is the last day at 00:00, so a transaction
  of the last day after midnight is left out. Here \<^verbatim>\<open>now\<close> is 15 January 2024 and
  the one expense is dated 31 January 2024 at 12:00: its date is valid and in the
  month of \<^verbatim>\<open>now\<close>, and yet no row is selected, the burn is 0 and the breakdown is
  empty, in both implementations.
\<close>

theorem C2_last_day_left_out:
  "validDate (mkDate 2024 0 31 43200000) \<and>
   sameMonth (mkDate 2024 0 15 0) (mkDate 2024 0 31 43200000) \<and>
   monthlyTransactions
     [mkTransaction ''u1'' ''expense'' ''2847.00'' (Some ''Engineering'') (mkDate 2024 0 31 43200000)]
     (mkDate 2024 0 15 0) ''u1'' = [] \<and>
   DatabaseStorage_getFinancialSummary []
     [mkTransaction ''u1'' ''expense'' ''2847.00'' (Some ''Engineering'') (mkDate 2024 0 31 43200000)]
     (mkDate 2024 0 15 0) ''u1'' =
     \<lparr>totalBalance = Num 0, monthlyBurn = Num 0, monthlyRevenue = Num 0, runwayMonths = Num 999\<rparr> \<and>
   MockStorage_getFinancialSummary []
     [mkTransaction ''u1'' ''expense'' ''2847.00'' (Some ''Engineering'') (mkDate 2024 0 31 43200000)]
     (mkDate 2024 0 15 0) ''u1'' =
     \<lparr>totalBalance = Num 0, monthlyBurn = Num 0, monthlyRevenue = Num 0, runwayMonths = Num 999\<rparr> \<and>
   DatabaseStorage_getExpenseBreakdown
     [mkTransaction ''u1'' ''expense'' ''2847.00'' (Some ''Engineering'') (mkDate 2024 0 31 43200000)]
     (mkDate 2024 0 15 0) ''u1'' = [] \<and>
   MockStorage_getExpenseBreakdown
     [mkTransaction ''u1'' ''expense'' ''2847.00'' (Some ''Engineering'') (mkDate 2024 0 31 43200000)]
     (mkDate 2024 0 15 0) ''u1'' = []"
  by (simp add: validDate_def sameMonth_def monthlyTransactions_def
      DatabaseStorage_getFinancialSummary_def MockStorage_getFinancialSummary_def
      DatabaseStorage_getExpenseBreakdown_def MockStorage_getExpenseBreakdown_def
      row_defs date_defs js_sub_def ownEntries_def)

text \<open>
  The same expense dated on the last day at 00:00, the upper bound itself, is selected.
\<close>

lemma last_day_midnight_selected:
  "monthlyTransactions
     [mkTransaction ''u1'' ''expense'' ''2847.00'' (Some ''Engineering'') (mkDate 2024 0 31 0)]
     (mkDate 2024 0 15 0) ''u1'' =
     [mkTransaction ''u1'' ''expense'' ''2847.00'' (Some ''Engineering'') (mkDate 2024 0 31 0)]"
  by (simp add: monthlyTransactions_def row_defs date_defs)

text \<open>
  What the range is, for a valid date: the calendar month of \<^verbatim>\<open>now\<close> without the
  last day after its first instant.
\<close>

lemma selected_iff:
  assumes "validDate (transaction_date t)"
  shows "t \<in> set (monthlyTransactions transactions now userId) \<longleftrightarrow>
         t \<in> set transactions \<and> transaction_userId t = userId \<and>
         sameMonth now (transaction_date t) \<and>
         (getDate (transaction_date t) < daysInMonth (getFullYear now) (getMonth now) \<or>
          msOfDay (transaction_date t) = 0)"
  using month_range_iff [OF assms, of now] by (auto simp: monthlyTransactions_def)

section \<open>The total balance\<close>

text \<open>
  Claim C3. In both implementations \<open>totalBalance\<close> is the sum of the parsed balances
  of all accounts of the user, provided no balance of the user is the empty string
  (for which the code reads 0); changing the active flags of the accounts leaves it
  unchanged, so inactive accounts count; and a user with no account has
  \<open>totalBalance = 0\<close>.
\<close>

theorem C3_totalBalance:
  assumes "getFinancialSummary = DatabaseStorage_getFinancialSummary \<or>
           getFinancialSummary = MockStorage_getFinancialSummary"
  shows "((\<forall>a \<in> set accounts. account_userId a = userId \<longrightarrow> account_balance a \<noteq> []) \<longrightarrow>
            totalBalance (getFinancialSummary accounts transactions now userId) =
              js_sum (map (\<lambda>a. parseFloat (account_balance a))
                          (filter (\<lambda>a. account_userId a = userId) accounts))) \<and>
         totalBalance (getFinancialSummary
             (map (\<lambda>a. a\<lparr>account_isActive := active a\<rparr>) accounts) transactions now userId) =
           totalBalance (getFinancialSummary accounts transactions now userId) \<and>
         (filter (\<lambda>a. account_userId a = userId) accounts = [] \<longrightarrow>
            totalBalance (getFinancialSummary accounts transactions now userId) = Num 0)"
proof -
  have db: "getFinancialSummary = DatabaseStorage_getFinancialSummary"
    using assms by (auto simp: Mock_summary_eq)
  have 1: "totalBalance (DatabaseStorage_getFinancialSummary accounts transactions now userId) =
             js_sum (map (\<lambda>a. parseFloat (account_balance a))
                         (filter (\<lambda>a. account_userId a = userId) accounts))"
    if "\<forall>a \<in> set accounts. account_userId a = userId \<longrightarrow> account_balance a \<noteq> []"
  proof -
    have eq: "map (\<lambda>a. parseFloat (strOr (account_balance a) ''0''))
              (filter (\<lambda>a. account_userId a = userId) accounts) =
          map (\<lambda>a. parseFloat (account_balance a))
              (filter (\<lambda>a. account_userId a = userId) accounts)"
      using that by (intro map_cong) (auto simp: strOr_def)
    show ?thesis by (simp only: summary_fields(1) eq)
  qed
  have "filter (\<lambda>a. account_userId a = userId)
               (map (\<lambda>a. a\<lparr>account_isActive := active a\<rparr>) accounts) =
        map (\<lambda>a. a\<lparr>account_isActive := active a\<rparr>)
            (filter (\<lambda>a. account_userId a = userId) accounts)"
    by (simp add: filter_map o_def)
  then have 2: "totalBalance (DatabaseStorage_getFinancialSummary
             (map (\<lambda>a. a\<lparr>account_isActive := active a\<rparr>) accounts) transactions now userId) =
           totalBalance (DatabaseStorage_getFinancialSummary accounts transactions now userId)"
    by (simp add: summary_fields(1) o_def)
  have 3: "totalBalance (DatabaseStorage_getFinancialSummary accounts transactions now userId) = Num 0"
    if "filter (\<lambda>a. account_userId a = userId) accounts = []"
    using that by (simp add: summary_fields(1) js_sum_def)
  from 1 2 3 show ?thesis unfolding db by blast
qed

text \<open>
  The theorem for a user with an active and an inactive account, the inactive one
  then switched to active: 170000 either way.
\<close>

theorem C3_totalBalance_witness:
  "totalBalance (MockStorage_getFinancialSummary
       [mkAccount ''u1'' ''45000.00'' True, mkAccount ''u1'' ''125000.00'' False,
        mkAccount ''u2'' ''999.00'' True] [] (mkDate 2024 0 15 0) ''u1'') = Num 170000 \<and>
   totalBalance (MockStorage_getFinancialSummary
       (map (\<lambda>a. a\<lparr>account_isActive := True\<rparr>)
         [mkAccount ''u1'' ''45000.00'' True, mkAccount ''u1'' ''125000.00'' False,
          mkAccount ''u2'' ''999.00'' True]) [] (mkDate 2024 0 15 0) ''u1'') = Num 170000 \<and>
   totalBalance (MockStorage_getFinancialSummary
       [mkAccount ''u1'' ''45000.00'' True, mkAccount ''u1'' ''125000.00'' False,
        mkAccount ''u2'' ''999.00'' True] [] (mkDate 2024 0 15 0) ''u3'') = Num 0"
  using C3_totalBalance [of MockStorage_getFinancialSummary
       "[mkAccount ''u1'' ''45000.00'' True, mkAccount ''u1'' ''125000.00'' False,
         mkAccount ''u2'' ''999.00'' True]" "''u1''" "[]" "mkDate 2024 0 15 0" "\<lambda>a. True"]
    C3_totalBalance [of MockStorage_getFinancialSummary
       "[mkAccount ''u1'' ''45000.00'' True, mkAccount ''u1'' ''125000.00'' False,
         mkAccount ''u2'' ''999.00'' True]" "''u3''" "[]" "mkDate 2024 0 15 0" "\<lambda>a. True"]
  by (simp add: mkAccount_def js_sum_def parsed)

section \<open>Expenses by absolute value, income by signed value\<close>

lemma summary_alt:
  "DatabaseStorage_getFinancialSummary accounts transactions now userId =
     \<lparr>totalBalance = js_sum (map (\<lambda>a. parseFloat (strOr (account_balance a) ''0''))
                                (filter (\<lambda>a. account_userId a = userId) accounts)),
      monthlyBurn = js_sub (sumExpenses (monthlyTransactions transactions now userId))
                           (sumIncome (monthlyTransactions transactions now userId)),
      monthlyRevenue = sumIncome (monthlyTransactions transactions now userId),
      runwayMonths =
        (if js_gt (js_sub (sumExpenses (monthlyTransactions transactions now userId))
                          (sumIncome (monthlyTransactions transactions now userId))) (Num 0)
         then js_div (js_sum (map (\<lambda>a. parseFloat (strOr (account_balance a) ''0''))
                                  (filter (\<lambda>a. account_userId a = userId) accounts)))
                     (js_sub (sumExpenses (monthlyTransactions transactions now userId))
                             (sumIncome (monthlyTransactions transactions now userId)))
         else Num 999)\<rparr>"
  by (simp add: DatabaseStorage_getFinancialSummary_def Let_def js_sum_def sumIncome_def
      sumExpenses_def monthlyTransactions_def foldl_map)

lemma js_abs_neg: "js_abs (js_neg x) = js_abs x"
  by (cases x) auto

lemma sumExpenses_flip:
  assumes "transaction_type t = ''expense''"
      and "parseFloat amt = js_neg (parseFloat (transaction_amount t))"
  shows "sumExpenses (monthlyTransactions (xs @ t\<lparr>transaction_amount := amt\<rparr> # ys) now userId) =
         sumExpenses (monthlyTransactions (xs @ t # ys) now userId)"
  using assms
  by (simp add: sumExpenses_def monthlyTransactions_append monthlyTransactions_Cons js_abs_neg)

lemma sumIncome_flip:
  assumes "transaction_type t = ''expense''"
  shows "sumIncome (monthlyTransactions (xs @ t\<lparr>transaction_amount := amt\<rparr> # ys) now userId) =
         sumIncome (monthlyTransactions (xs @ t # ys) now userId)"
  using assms
  by (simp add: sumIncome_def monthlyTransactions_append monthlyTransactions_Cons)

text \<open>
  Claim C4. In both implementations \<open>monthlyRevenue\<close> is the sum of the signed parsed
  amounts of the month's income rows, and \<open>monthlyBurn\<close> is the sum of the absolute
  parsed amounts of the month's expense rows (\<open>monthlyExpenses\<close>) minus that revenue;
  and replacing the amount of an expense row by one that parses to the opposite number
  leaves the whole summary unchanged.
\<close>

theorem C4_sign_convention:
  assumes "getFinancialSummary = DatabaseStorage_getFinancialSummary \<or>
           getFinancialSummary = MockStorage_getFinancialSummary"
  shows "monthlyRevenue (getFinancialSummary accounts transactions now userId) =
           sumIncome (monthlyTransactions transactions now userId) \<and>
         monthlyBurn (getFinancialSummary accounts transactions now userId) =
           js_sub (sumExpenses (monthlyTransactions transactions now userId))
                  (sumIncome (monthlyTransactions transactions now userId)) \<and>
         (transaction_type t = ''expense'' \<and>
          parseFloat amt = js_neg (parseFloat (transaction_amount t)) \<longrightarrow>
            getFinancialSummary accounts (xs @ t\<lparr>transaction_amount := amt\<rparr> # ys) now userId =
            getFinancialSummary accounts (xs @ t # ys) now userId)"
proof -
  have db: "getFinancialSummary = DatabaseStorage_getFinancialSummary"
    using assms by (auto simp: Mock_summary_eq)
  have flip: "DatabaseStorage_getFinancialSummary accounts
                (xs @ t\<lparr>transaction_amount := amt\<rparr> # ys) now userId =
              DatabaseStorage_getFinancialSummary accounts (xs @ t # ys) now userId"
    if "transaction_type t = ''expense''"
      and "parseFloat amt = js_neg (parseFloat (transaction_amount t))"
    by (simp only: summary_alt sumExpenses_flip [OF that] sumIncome_flip [OF that(1)])
  show ?thesis
    unfolding db using flip by (simp add: summary_fields(2,3))
qed

text \<open>
  The theorem for the expense of the first scenario, stored as "-2847.00" and flipped
  to "2847.00": the burn is \<open>-42153\<close> either way.
\<close>

theorem C4_sign_convention_witness:
  "transaction_type (mkTransaction ''u1'' ''expense'' ''-2847.00'' (Some ''Engineering'')
      (mkDate 2024 0 10 0)) = ''expense'' \<and>
   parseFloat ''2847.00'' = js_neg (parseFloat (transaction_amount
      (mkTransaction ''u1'' ''expense'' ''-2847.00'' (Some ''Engineering'') (mkDate 2024 0 10 0)))) \<and>
   DatabaseStorage_getFinancialSummary [mkAccount ''u1'' ''45000.00'' True]
     ([] @ (mkTransaction ''u1'' ''expense'' ''-2847.00'' (Some ''Engineering'') (mkDate 2024 0 10 0))
             \<lparr>transaction_amount := ''2847.00''\<rparr> #
      [mkTransaction ''u1'' ''income'' ''45000.00'' (Some ''Revenue'') (mkDate 2024 0 12 0)])
     (mkDate 2024 0 15 0) ''u1'' =
   DatabaseStorage_getFinancialSummary [mkAccount ''u1'' ''45000.00'' True]
     ([] @ mkTransaction ''u1'' ''expense'' ''-2847.00'' (Some ''Engineering'') (mkDate 2024 0 10 0) #
      [mkTransaction ''u1'' ''income'' ''45000.00'' (Some ''Revenue'') (mkDate 2024 0 12 0)])
     (mkDate 2024 0 15 0) ''u1'' \<and>
   monthlyBurn (DatabaseStorage_getFinancialSummary [mkAccount ''u1'' ''45000.00'' True]
     ([] @ mkTransaction ''u1'' ''expense'' ''-2847.00'' (Some ''Engineering'') (mkDate 2024 0 10 0) #
      [mkTransaction ''u1'' ''income'' ''45000.00'' (Some ''Revenue'') (mkDate 2024 0 12 0)])
     (mkDate 2024 0 15 0) ''u1'') = Num (- 42153)"
  using C4_sign_convention [of DatabaseStorage_getFinancialSummary
      "[mkAccount ''u1'' ''45000.00'' True]"
      "[] @ mkTransaction ''u1'' ''expense'' ''-2847.00'' (Some ''Engineering'') (mkDate 2024 0 10 0) #
        [mkTransaction ''u1'' ''income'' ''45000.00'' (Some ''Revenue'') (mkDate 2024 0 12 0)]"
      "mkDate 2024 0 15 0" "''u1''"
      "mkTransaction ''u1'' ''expense'' ''-2847.00'' (Some ''Engineering'') (mkDate 2024 0 10 0)"
      "''2847.00''" "[]"
      "[mkTransaction ''u1'' ''income'' ''45000.00'' (Some ''Revenue'') (mkDate 2024 0 12 0)]"]
  by (simp add: row_defs parsed sumExpenses_def sumIncome_def monthlyTransactions_def
      js_sum_def js_sub_def date_defs)

section \<open>Empty inputs\<close>

text \<open>
  Claim C5. Neither method has a failing path: each is a total function of the rows,
  the clock reading and the user. With no transaction of the user in the calendar month
  of \<^verbatim>\<open>now\<close>, both implementations of the summary give \<open>monthlyBurn = 0\<close> and
  \<open>runwayMonths = 999\<close>; with no expense transaction of the user in that month, both
  implementations of the breakdown return the empty list.
\<close>

theorem C5_empty_inputs:
  assumes "getFinancialSummary = DatabaseStorage_getFinancialSummary \<or>
           getFinancialSummary = MockStorage_getFinancialSummary"
      and "getExpenseBreakdown = DatabaseStorage_getExpenseBreakdown \<or>
           getExpenseBreakdown = MockStorage_getExpenseBreakdown"
  shows "((\<forall>t \<in> set transactions.
              transaction_userId t = userId \<longrightarrow> \<not> sameMonth now (transaction_date t)) \<longrightarrow>
            monthlyBurn (getFinancialSummary accounts transactions now userId) = Num 0 \<and>
            runwayMonths (getFinancialSummary accounts transactions now userId) = Num 999) \<and>
         ((\<forall>t \<in> set transactions.
              transaction_userId t = userId \<and> transaction_type t = ''expense'' \<longrightarrow>
              \<not> sameMonth now (transaction_date t)) \<longrightarrow>
            getExpenseBreakdown transactions now userId = [])"
proof -
  have s: "getFinancialSummary = DatabaseStorage_getFinancialSummary"
    using assms(1) by (auto simp: Mock_summary_eq)
  have b: "getExpenseBreakdown = DatabaseStorage_getExpenseBreakdown"
    using assms(2) by (auto simp: Mock_breakdown_eq)
  have 1: "monthlyBurn (DatabaseStorage_getFinancialSummary accounts transactions now userId) = Num 0 \<and>
           runwayMonths (DatabaseStorage_getFinancialSummary accounts transactions now userId) = Num 999"
    if h: "\<forall>t \<in> set transactions.
             transaction_userId t = userId \<longrightarrow> \<not> sameMonth now (transaction_date t)"
  proof -
    have "monthlyTransactions transactions now userId = []"
      unfolding monthlyTransactions_def filter_empty_conv
      using h month_range_sameMonth by blast
    then show ?thesis
      by (simp add: summary_alt sumExpenses_def sumIncome_def js_sum_def js_sub_def)
  qed
  have 2: "DatabaseStorage_getExpenseBreakdown transactions now userId = []"
    if h: "\<forall>t \<in> set transactions.
             transaction_userId t = userId \<and> transaction_type t = ''expense'' \<longrightarrow>
             \<not> sameMonth now (transaction_date t)"
  proof -
    have "filter (\<lambda>t. transaction_type t = ''expense'')
            (monthlyTransactions transactions now userId) = []"
      unfolding monthlyTransactions_def filter_filter filter_empty_conv
      using h month_range_sameMonth by blast
    then show ?thesis
      by (simp add: breakdown_expenses ownEntries_Nil)
  qed
  from 1 2 show ?thesis unfolding s b by blast
qed

text \<open>
  The theorem for a user whose only rows are an expense of the month before and an
  income, and next to them an expense of another user in the month.
\<close>

theorem C5_empty_inputs_witness:
  "monthlyBurn (DatabaseStorage_getFinancialSummary [mkAccount ''u1'' ''45000.00'' True]
     [mkTransaction ''u1'' ''expense'' ''2847.00'' (Some ''Engineering'') (mkDate 2023 11 31 0),
      mkTransaction ''u2'' ''expense'' ''1000.00'' (Some ''Legal'') (mkDate 2024 0 10 0)]
     (mkDate 2024 0 15 0) ''u1'') = Num 0 \<and>
   runwayMonths (DatabaseStorage_getFinancialSummary [mkAccount ''u1'' ''45000.00'' True]
     [mkTransaction ''u1'' ''expense'' ''2847.00'' (Some ''Engineering'') (mkDate 2023 11 31 0),
      mkTransaction ''u2'' ''expense'' ''1000.00'' (Some ''Legal'') (mkDate 2024 0 10 0)]
     (mkDate 2024 0 15 0) ''u1'') = Num 999 \<and>
   MockStorage_getExpenseBreakdown
     [mkTransaction ''u1'' ''expense'' ''2847.00'' (Some ''Engineering'') (mkDate 2023 11 31 0),
      mkTransaction ''u2'' ''expense'' ''1000.00'' (Some ''Legal'') (mkDate 2024 0 10 0)]
     (mkDate 2024 0 15 0) ''u1'' = []"
  using C5_empty_inputs [of DatabaseStorage_getFinancialSummary MockStorage_getExpenseBreakdown
     "[mkTransaction ''u1'' ''expense'' ''2847.00'' (Some ''Engineering'') (mkDate 2023 11 31 0),
       mkTransaction ''u2'' ''expense'' ''1000.00'' (Some ''Legal'') (mkDate 2024 0 10 0)]"
     "''u1''" "mkDate 2024 0 15 0" "[mkAccount ''u1'' ''45000.00'' True]"]
  by (simp add: mkTransaction_def mkDate_def sameMonth_def)

section \<open>Groups and categories\<close>

text \<open>
  Claim C6 says that no expense of the month is dropped from the breakdown: each adds
  the absolute value of its amount to exactly one group. The accumulator is an object
  literal, and a category that names a member it inherits is not handled as a new key.
  For the category \<^verbatim>\<open>__proto__\<close> the read gives the prototype object, the sum is a
  string, and the assignment of a string to \<^verbatim>\<open>__proto__\<close> is ignored: the expense
  of 2847 below is in the month, and the breakdown of both implementations is empty;
  next to an Engineering expense of 1000 the groups total 1000, not 3847. For the
  category \<^verbatim>\<open>constructor\<close> the group is created, and its amount is a string.
\<close>

theorem C6_inherited_category:
  "sumExpenses (monthlyTransactions
      [mkTransaction ''u1'' ''expense'' ''2847.00'' (Some ''__proto__'') (mkDate 2024 0 10 0)]
      (mkDate 2024 0 15 0) ''u1'') = Num 2847 \<and>
   DatabaseStorage_getExpenseBreakdown
      [mkTransaction ''u1'' ''expense'' ''2847.00'' (Some ''__proto__'') (mkDate 2024 0 10 0)]
      (mkDate 2024 0 15 0) ''u1'' = [] \<and>
   MockStorage_getExpenseBreakdown
      [mkTransaction ''u1'' ''expense'' ''2847.00'' (Some ''__proto__'') (mkDate 2024 0 10 0)]
      (mkDate 2024 0 15 0) ''u1'' = [] \<and>
   DatabaseStorage_getExpenseBreakdown
      [mkTransaction ''u1'' ''expense'' ''1000.00'' (Some ''Engineering'') (mkDate 2024 0 9 0),
       mkTransaction ''u1'' ''expense'' ''2847.00'' (Some ''__proto__'') (mkDate 2024 0 10 0)]
      (mkDate 2024 0 15 0) ''u1'' =
     [\<lparr>category = ''Engineering'', amount = Number (Num 1000), percentage = Num 100\<rparr>] \<and>
   DatabaseStorage_getExpenseBreakdown
      [mkTransaction ''u1'' ''expense'' ''2847.00'' (Some ''constructor'') (mkDate 2024 0 10 0)]
      (mkDate 2024 0 15 0) ''u1'' =
     [\<lparr>category = ''constructor'', amount = Text, percentage = Num 0\<rparr>]"
  by (simp add: DatabaseStorage_getExpenseBreakdown_def MockStorage_getExpenseBreakdown_def
      row_defs date_defs parsed sumExpenses_def monthlyTransactions_def js_sum_def
      categoryTotalsStep_def nullableOr_def strOr_def getProp_def setProp_def
      objectPrototypeMethods_def ownEntries_def isArrayIndex_def isDigit_def breakdownEntry_def)

text \<open>
  An expense without category, or with the empty string as category, is grouped under
  \<^verbatim>\<open>Uncategorized\<close>.
\<close>

lemma uncategorized_grouped:
  "DatabaseStorage_getExpenseBreakdown
      [mkTransaction ''u1'' ''expense'' ''1000.00'' None (mkDate 2024 0 9 0),
       mkTransaction ''u1'' ''expense'' ''-2847.00'' (Some '''') (mkDate 2024 0 10 0)]
      (mkDate 2024 0 15 0) ''u1'' =
     [\<lparr>category = ''Uncategorized'', amount = Number (Num 3847), percentage = Num 100\<rparr>]"
  by (simp add: DatabaseStorage_getExpenseBreakdown_def
      row_defs date_defs parsed categoryTotalsStep_def nullableOr_def strOr_def getProp_def
      setProp_def objectPrototypeMethods_def ownEntries_def isArrayIndex_def isDigit_def
      breakdownEntry_def)

subsection \<open>Categories that are not inherited names\<close>

text \<open>
  One step of the reducer, for a finite amount and a category that is not an inherited
  name: every total stays a finite number, and the totals grow by the absolute amount.
\<close>

lemma total_step:
  assumes fin: "\<forall>e \<in> set acc. \<exists>r. snd e = Number (Num r)"
      and amt: "isNum (parseFloat (transaction_amount t))"
      and cat: "nullableOr (transaction_category t) ''Uncategorized'' \<notin>
                  set (''__proto__'' # objectPrototypeMethods)"
  shows "(\<forall>e \<in> set (categoryTotalsStep acc t). \<exists>r. snd e = Number (Num r)) \<and>
         sum_list (map (\<lambda>e. ratOf (toNumber (snd e))) (categoryTotalsStep acc t)) =
           sum_list (map (\<lambda>e. ratOf (toNumber (snd e))) acc) +
           ratOf (js_abs (parseFloat (transaction_amount t)))"
proof -
  define k where "k = nullableOr (transaction_category t) ''Uncategorized''"
  define v where "v = orZeroPlus (getProp acc k) (js_abs (parseFloat (transaction_amount t)))"
  from amt obtain a where a: "js_abs (parseFloat (transaction_amount t)) = Num a"
    by (auto simp: isNum_conv)
  from cat have k: "k \<noteq> ''__proto__''" "k \<notin> set objectPrototypeMethods"
    by (simp_all add: k_def)
  then have step: "categoryTotalsStep acc t = setOwn k v acc"
    by (simp add: categoryTotalsStep_def k_def v_def Let_def setProp_def)
  have "(\<exists>r. v = Number (Num r)) \<and>
        sum_list (map (\<lambda>e. ratOf (toNumber (snd e))) (setOwn k v acc)) =
          sum_list (map (\<lambda>e. ratOf (toNumber (snd e))) acc) + a"
  proof (cases "map_of acc k")
    case None
    with k have "v = Number (Num a)"
      by (simp add: v_def getProp_def a)
    with sum_setOwn_new [OF None, of v] show ?thesis by simp
  next
    case (Some w)
    then have "(k, w) \<in> set acc" by (rule map_of_SomeD)
    with fin obtain r where w: "w = Number (Num r)" by fastforce
    have "v = Number (Num (r + a))"
      by (simp add: v_def getProp_def Some w a)
    with sum_setOwn_old [OF Some, of v] show ?thesis by (simp add: w)
  qed
  moreover have "\<forall>e \<in> set (setOwn k v acc). \<exists>r. snd e = Number (Num r)"
    if "\<exists>r. v = Number (Num r)"
    using that fin set_setOwn [of k v acc] by fastforce
  ultimately show ?thesis
    by (simp add: step a)
qed

lemma total_foldl:
  assumes "\<forall>e \<in> set acc. \<exists>r. snd e = Number (Num r)"
      and "\<forall>t \<in> set ts. isNum (parseFloat (transaction_amount t))"
      and "\<forall>t \<in> set ts. nullableOr (transaction_category t) ''Uncategorized'' \<notin>
                  set (''__proto__'' # objectPrototypeMethods)"
  shows "(\<forall>e \<in> set (foldl categoryTotalsStep acc ts). \<exists>r. snd e = Number (Num r)) \<and>
         sum_list (map (\<lambda>e. ratOf (toNumber (snd e))) (foldl categoryTotalsStep acc ts)) =
           sum_list (map (\<lambda>e. ratOf (toNumber (snd e))) acc) +
           sum_list (map (\<lambda>t. ratOf (js_abs (parseFloat (transaction_amount t)))) ts)"
  using assms
proof (induction ts arbitrary: acc)
  case Nil
  then show ?case by simp
next
  case (Cons t ts)
  from Cons.prems have step:
    "(\<forall>e \<in> set (categoryTotalsStep acc t). \<exists>r. snd e = Number (Num r)) \<and>
     sum_list (map (\<lambda>e. ratOf (toNumber (snd e))) (categoryTotalsStep acc t)) =
       sum_list (map (\<lambda>e. ratOf (toNumber (snd e))) acc) +
       ratOf (js_abs (parseFloat (transaction_amount t)))"
    by (intro total_step) simp_all
  from Cons.prems have rest: "\<forall>t \<in> set ts. isNum (parseFloat (transaction_amount t))"
    "\<forall>t \<in> set ts. nullableOr (transaction_category t) ''Uncategorized'' \<notin>
                  set (''__proto__'' # objectPrototypeMethods)"
    by simp_all
  from Cons.IH [OF conjunct1 [OF step] rest] step show ?case
    by (simp add: add.assoc)
qed

text \<open>
  When the month's expense amounts are finite and no category is an inherited name,
  the group amounts of the breakdown sum to the month's expenses: nothing is dropped.
\<close>

lemma groups_total:
  assumes fin: "\<forall>t \<in> set (monthlyTransactions transactions now userId).
                  transaction_type t = ''expense'' \<longrightarrow> isNum (parseFloat (transaction_amount t))"
      and cat: "\<forall>t \<in> set (monthlyTransactions transactions now userId).
                  transaction_type t = ''expense'' \<longrightarrow>
                  nullableOr (transaction_category t) ''Uncategorized'' \<notin>
                    set (''__proto__'' # objectPrototypeMethods)"
  shows "totalOfGroups (DatabaseStorage_getExpenseBreakdown transactions now userId) =
         sumExpenses (monthlyTransactions transactions now userId)"
proof -
  define ts where
    "ts = filter (\<lambda>t. transaction_type t = ''expense'') (monthlyTransactions transactions now userId)"
  define acc where "acc = foldl categoryTotalsStep [] ts"
  define tot where "tot = foldl val_add (Number (Num 0)) (map snd (ownEntries acc))"
  define S where "S = sum_list (map (\<lambda>t. ratOf (js_abs (parseFloat (transaction_amount t)))) ts)"
  have res: "DatabaseStorage_getExpenseBreakdown transactions now userId =
             map (breakdownEntry tot) (ownEntries acc)"
    by (simp add: breakdown_expenses Let_def ts_def acc_def tot_def)
  have total: "totalOfGroups (map (breakdownEntry tot) (ownEntries acc)) = toNumber tot"
    by (simp only: totalOfGroups_def amount_breakdownEntry tot_def)
  from fin have f: "\<forall>t \<in> set ts. isNum (parseFloat (transaction_amount t))"
    by (simp add: ts_def)
  from cat have c: "\<forall>t \<in> set ts. nullableOr (transaction_category t) ''Uncategorized'' \<notin>
                  set (''__proto__'' # objectPrototypeMethods)"
    by (simp add: ts_def)
  from total_foldl [of "[]" ts, OF _ f c]
  have num: "\<forall>e \<in> set acc. \<exists>r. snd e = Number (Num r)"
    and sum: "sum_list (map (\<lambda>e. ratOf (toNumber (snd e))) acc) = S"
    by (simp_all add: acc_def S_def)
  from num have "\<forall>v \<in> set (map snd (ownEntries acc)). \<exists>r. v = Number (Num r)"
    by (auto simp: set_ownEntries)
  from foldl_val_add_finite [OF this, of 0] have "tot = Number (Num S)"
    using sum_list_ownEntries [of "\<lambda>e. ratOf (toNumber (snd e))" acc]
    by (simp add: tot_def o_def sum)
  then have "toNumber tot = Num S" by simp
  moreover have "sumExpenses (monthlyTransactions transactions now userId) = Num S"
  proof -
    have "map (\<lambda>t. js_abs (parseFloat (transaction_amount t))) ts =
          map Num (map (\<lambda>t. ratOf (js_abs (parseFloat (transaction_amount t)))) ts)"
      using f by (auto simp: isNum_conv)
    then show ?thesis
      unfolding sumExpenses_def js_sum_def ts_def [symmetric] S_def
      by (simp only: foldl_js_add_finite) simp
  qed
  ultimately show ?thesis
    by (simp only: res total)
qed

lemma fst_set_setOwn: "fst ` set (setOwn k v acc) = insert k (fst ` set acc)"
  by (induction acc) auto

lemma distinct_setOwn: "distinct (map fst acc) \<Longrightarrow> distinct (map fst (setOwn k v acc))"
proof (induction acc)
  case Nil
  then show ?case by simp
next
  case (Cons p acc)
  show ?case
  proof (cases "fst p = k")
    case True
    with Cons.prems show ?thesis by simp
  next
    case False
    have "fst p \<notin> fst ` set (setOwn k v acc)"
      using Cons.prems False by (simp add: fst_set_setOwn)
    with Cons False show ?thesis by simp
  qed
qed

lemma groupSum_snoc:
  "groupSum (ps @ [t]) k = groupSum ps k + (if groupLabel t = k then ratOf (absAmount t) else 0)"
  by (simp add: groupSum_def)

lemma groupSum_absent: "k \<notin> groupLabel ` set ps \<Longrightarrow> groupSum ps k = 0"
proof -
  assume "k \<notin> groupLabel ` set ps"
  then have "filter (\<lambda>t. groupLabel t = k) ps = []"
    by (auto simp: filter_empty_conv)
  then show ?thesis by (simp add: groupSum_def)
qed

lemma group_step:
  assumes inv: "groupsOf acc ps"
      and amt: "isNum (parseFloat (transaction_amount t))"
      and cat: "groupLabel t \<notin> set (''__proto__'' # objectPrototypeMethods)"
  shows "groupsOf (categoryTotalsStep acc t) (ps @ [t])"
proof -
  define k where "k = groupLabel t"
  define v where "v = orZeroPlus (getProp acc k) (absAmount t)"
  from amt obtain a where a: "absAmount t = Num a"
    by (auto simp: isNum_conv absAmount_def)
  from cat have k: "k \<noteq> ''__proto__''" "k \<notin> set objectPrototypeMethods"
    by (simp_all add: k_def)
  then have step: "categoryTotalsStep acc t = setOwn k v acc"
    by (simp add: categoryTotalsStep_def k_def v_def Let_def setProp_def groupLabel_def
        absAmount_def)
  from inv have m: "map_of acc k =
      (if k \<in> groupLabel ` set ps then Some (Number (Num (groupSum ps k))) else None)"
    by (simp add: groupsOf_def)
  have v: "v = Number (Num (groupSum ps k + a))"
  proof (cases "k \<in> groupLabel ` set ps")
    case True
    with m show ?thesis by (simp add: v_def getProp_def a)
  next
    case False
    with m k show ?thesis by (simp add: v_def getProp_def a groupSum_absent)
  qed
  have "map_of (setOwn k v acc) k' =
      (if k' \<in> groupLabel ` set (ps @ [t]) then Some (Number (Num (groupSum (ps @ [t]) k')))
       else None)" for k'
  proof (cases "k' = k")
    case True
    then show ?thesis by (simp add: map_of_setOwn v groupSum_snoc k_def a)
  next
    case False
    with inv show ?thesis
      by (simp add: map_of_setOwn groupSum_snoc k_def groupsOf_def)
  qed
  moreover from inv have "distinct (map fst (setOwn k v acc))"
    by (simp add: groupsOf_def distinct_setOwn)
  ultimately show ?thesis
    unfolding step groupsOf_def by blast
qed

lemma group_foldl:
  assumes "groupsOf acc ps"
      and "\<forall>t \<in> set ts. isNum (parseFloat (transaction_amount t))"
      and "\<forall>t \<in> set ts. groupLabel t \<notin> set (''__proto__'' # objectPrototypeMethods)"
  shows "groupsOf (foldl categoryTotalsStep acc ts) (ps @ ts)"
  using assms
proof (induction ts arbitrary: acc ps)
  case Nil
  then show ?case by simp
next
  case (Cons t ts)
  from Cons.prems have "groupsOf (categoryTotalsStep acc t) (ps @ [t])"
    by (intro group_step) simp_all
  from Cons.IH [OF this] Cons.prems show ?case by simp
qed

lemma distinct_ownEntries:
  assumes "distinct (map fst acc)"
  shows "distinct (map fst (ownEntries acc))"
proof -
  from assms have d: "distinct acc" and i: "inj_on fst (set acc)"
    by (simp_all add: distinct_map)
  have "distinct (ownEntries acc)"
    using d by (auto simp: ownEntries_def)
  moreover have "inj_on fst (set (ownEntries acc))"
    using i by (simp add: set_ownEntries)
  ultimately show ?thesis by (simp add: distinct_map)
qed

lemma js_sum_finite:
  assumes "\<forall>t \<in> set ts. isNum (f t)"
  shows "js_sum (map f ts) = Num (sum_list (map (\<lambda>t. ratOf (f t)) ts))"
proof -
  have "map f ts = map Num (map (\<lambda>t. ratOf (f t)) ts)"
    using assms by (auto simp: isNum_conv)
  then show ?thesis
    unfolding js_sum_def by (simp only: foldl_js_add_finite) simp
qed

text \<open>
  Under the same two conditions every group is the sum of the absolute amounts of the
  month's expenses filed under its label, the labels of the groups are those of the
  expenses, and no label occurs twice: each expense counts in exactly one group.
\<close>

lemma group_amounts:
  assumes fin: "\<forall>t \<in> set (monthlyTransactions transactions now userId).
                  transaction_type t = ''expense'' \<longrightarrow> isNum (parseFloat (transaction_amount t))"
      and cat: "\<forall>t \<in> set (monthlyTransactions transactions now userId).
                  transaction_type t = ''expense'' \<longrightarrow>
                  groupLabel t \<notin> set (''__proto__'' # objectPrototypeMethods)"
      and ts: "ts = filter (\<lambda>t. transaction_type t = ''expense'')
                      (monthlyTransactions transactions now userId)"
  shows "distinct (map category (DatabaseStorage_getExpenseBreakdown transactions now userId))"
    and "category ` set (DatabaseStorage_getExpenseBreakdown transactions now userId) =
           groupLabel ` set ts"
    and "\<forall>e \<in> set (DatabaseStorage_getExpenseBreakdown transactions now userId).
           amount e = Number (js_sum (map absAmount (filter (\<lambda>t. groupLabel t = category e) ts)))"
proof -
  define acc where "acc = foldl categoryTotalsStep [] ts"
  define tot where "tot = foldl val_add (Number (Num 0)) (map snd (ownEntries acc))"
  have res: "DatabaseStorage_getExpenseBreakdown transactions now userId =
             map (breakdownEntry tot) (ownEntries acc)"
    by (simp add: breakdown_expenses Let_def ts acc_def tot_def)
  from fin have f: "\<forall>t \<in> set ts. isNum (parseFloat (transaction_amount t))"
    by (simp add: ts)
  from cat have c: "\<forall>t \<in> set ts. groupLabel t \<notin> set (''__proto__'' # objectPrototypeMethods)"
    by (simp add: ts)
  have "groupsOf [] []" by (simp add: groupsOf_def)
  from group_foldl [OF this f c] have inv: "groupsOf acc ts"
    by (simp add: acc_def)
  then have d: "distinct (map fst acc)"
    and m: "map_of acc k =
      (if k \<in> groupLabel ` set ts then Some (Number (Num (groupSum ts k))) else None)" for k
    by (simp_all add: groupsOf_def)
  have cats: "map category (map (breakdownEntry tot) (ownEntries acc)) = map fst (ownEntries acc)"
    by (simp add: breakdownEntry_def o_def)
  show "distinct (map category (DatabaseStorage_getExpenseBreakdown transactions now userId))"
    by (simp only: res cats distinct_ownEntries [OF d])
  have "fst ` set acc = groupLabel ` set ts"
  proof -
    have "fst ` set acc = dom (map_of acc)" by (simp add: dom_map_of_conv_image_fst)
    also have "\<dots> = groupLabel ` set ts" by (auto simp: m dom_def)
    finally show ?thesis .
  qed
  then show "category ` set (DatabaseStorage_getExpenseBreakdown transactions now userId) =
           groupLabel ` set ts"
    by (simp add: res set_ownEntries image_image breakdownEntry_def)
  show "\<forall>e \<in> set (DatabaseStorage_getExpenseBreakdown transactions now userId).
           amount e = Number (js_sum (map absAmount (filter (\<lambda>t. groupLabel t = category e) ts)))"
  proof
    fix e
    assume "e \<in> set (DatabaseStorage_getExpenseBreakdown transactions now userId)"
    then obtain k v where kv: "(k, v) \<in> set acc" and e: "e = breakdownEntry tot (k, v)"
      by (auto simp: res set_ownEntries)
    from kv d have "map_of acc k = Some v" by simp
    with m [of k] have v: "v = Number (Num (groupSum ts k))"
      by (simp split: if_splits)
    have "\<forall>t \<in> set (filter (\<lambda>t. groupLabel t = k) ts). isNum (absAmount t)"
      using f by (auto simp: absAmount_def isNum_conv)
    from js_sum_finite [OF this]
    have "js_sum (map absAmount (filter (\<lambda>t. groupLabel t = k) ts)) = Num (groupSum ts k)"
      by (simp add: groupSum_def)
    with v e show "amount e =
        Number (js_sum (map absAmount (filter (\<lambda>t. groupLabel t = category e) ts)))"
      by (simp add: breakdownEntry_def)
  qed
qed

section \<open>Percentages\<close>




section \<open>The spec's first scenario\<close>

text \<open>
  Claim C8. Accounts with balances "45000.00" and "125000.00"; in the month one expense
  of "-2847.00" and one income of "45000.00": the summary has \<open>totalBalance = 170000\<close>,
  \<open>monthlyRevenue = 45000\<close>, \<open>monthlyBurn = -42153\<close> and \<open>runwayMonths = 999\<close>, and the
  expenses of the month sum to 2847.
\<close>

theorem C8_scenario:
  "DatabaseStorage_getFinancialSummary
     [mkAccount ''u1'' ''45000.00'' True, mkAccount ''u1'' ''125000.00'' True]
     [mkTransaction ''u1'' ''expense'' ''-2847.00'' (Some ''Engineering'') (mkDate 2024 0 10 0),
      mkTransaction ''u1'' ''income'' ''45000.00'' (Some ''Revenue'') (mkDate 2024 0 12 0)]
     (mkDate 2024 0 15 43200000) ''u1'' =
   \<lparr>totalBalance = Num 170000, monthlyBurn = Num (- 42153), monthlyRevenue = Num 45000,
    runwayMonths = Num 999\<rparr> \<and>
   sumExpenses (monthlyTransactions
     [mkTransaction ''u1'' ''expense'' ''-2847.00'' (Some ''Engineering'') (mkDate 2024 0 10 0),
      mkTransaction ''u1'' ''income'' ''45000.00'' (Some ''Revenue'') (mkDate 2024 0 12 0)]
     (mkDate 2024 0 15 43200000) ''u1'') = Num 2847"
  by (simp add: DatabaseStorage_getFinancialSummary_def row_defs strOr_def parsed date_defs
      js_sub_def sumExpenses_def monthlyTransactions_def js_sum_def)

section \<open>Rows that are neither expense nor income\<close>

text \<open>
  Claim C9. A transaction whose type is neither \<open>expense\<close> nor \<open>income\<close> (a transfer,
  say) contributes nothing, whatever its date: with it or without it, both
  implementations return the same summary (so the same \<open>monthlyRevenue\<close>,
  \<open>monthlyBurn\<close> and \<open>runwayMonths\<close>), the month's expenses sum to the same value,
  and the breakdown is the same list of groups.
\<close>

theorem C9_other_types_ignored:
  assumes "getFinancialSummary = DatabaseStorage_getFinancialSummary \<or>
           getFinancialSummary = MockStorage_getFinancialSummary"
      and "getExpenseBreakdown = DatabaseStorage_getExpenseBreakdown \<or>
           getExpenseBreakdown = MockStorage_getExpenseBreakdown"
      and "transaction_type t \<noteq> ''expense''" and "transaction_type t \<noteq> ''income''"
  shows "getFinancialSummary accounts (xs @ t # ys) now userId =
           getFinancialSummary accounts (xs @ ys) now userId \<and>
         sumExpenses (monthlyTransactions (xs @ t # ys) now userId) =
           sumExpenses (monthlyTransactions (xs @ ys) now userId) \<and>
         getExpenseBreakdown (xs @ t # ys) now userId = getExpenseBreakdown (xs @ ys) now userId"
proof -
  have s: "getFinancialSummary = DatabaseStorage_getFinancialSummary"
    using assms(1) by (auto simp: Mock_summary_eq)
  have b: "getExpenseBreakdown = DatabaseStorage_getExpenseBreakdown"
    using assms(2) by (auto simp: Mock_breakdown_eq)
  have e: "filter (\<lambda>t. transaction_type t = ''expense'') (monthlyTransactions (xs @ t # ys) now userId) =
           filter (\<lambda>t. transaction_type t = ''expense'') (monthlyTransactions (xs @ ys) now userId)"
    using assms(3) by (simp add: monthlyTransactions_append monthlyTransactions_Cons)
  have i: "filter (\<lambda>t. transaction_type t = ''income'') (monthlyTransactions (xs @ t # ys) now userId) =
           filter (\<lambda>t. transaction_type t = ''income'') (monthlyTransactions (xs @ ys) now userId)"
    using assms(4) by (simp add: monthlyTransactions_append monthlyTransactions_Cons)
  have 1: "getFinancialSummary accounts (xs @ t # ys) now userId =
           getFinancialSummary accounts (xs @ ys) now userId"
    unfolding s by (rule summary_cong [OF e i])
  have 2: "sumExpenses (monthlyTransactions (xs @ t # ys) now userId) =
           sumExpenses (monthlyTransactions (xs @ ys) now userId)"
    by (simp add: sumExpenses_def e)
  have 3: "getExpenseBreakdown (xs @ t # ys) now userId = getExpenseBreakdown (xs @ ys) now userId"
    unfolding b by (simp add: breakdown_expenses e)
  from 1 2 3 show ?thesis by simp
qed

text \<open>The theorem for a transfer dated in the month, between an expense and an income.\<close>

theorem C9_other_types_ignored_witness:
  "transaction_type (mkTransaction ''u1'' ''transfer'' ''500.00'' (Some ''Engineering'') (mkDate 2024 0 11 0))
     \<noteq> ''expense'' \<and>
   transaction_type (mkTransaction ''u1'' ''transfer'' ''500.00'' (Some ''Engineering'') (mkDate 2024 0 11 0))
     \<noteq> ''income'' \<and>
   DatabaseStorage_getFinancialSummary [mkAccount ''u1'' ''45000.00'' True]
     ([mkTransaction ''u1'' ''expense'' ''-2847.00'' (Some ''Engineering'') (mkDate 2024 0 10 0)] @
      mkTransaction ''u1'' ''transfer'' ''500.00'' (Some ''Engineering'') (mkDate 2024 0 11 0) #
      [mkTransaction ''u1'' ''income'' ''1000.00'' (Some ''Revenue'') (mkDate 2024 0 12 0)])
     (mkDate 2024 0 15 43200000) ''u1'' =
   DatabaseStorage_getFinancialSummary [mkAccount ''u1'' ''45000.00'' True]
     ([mkTransaction ''u1'' ''expense'' ''-2847.00'' (Some ''Engineering'') (mkDate 2024 0 10 0)] @
      [mkTransaction ''u1'' ''income'' ''1000.00'' (Some ''Revenue'') (mkDate 2024 0 12 0)])
     (mkDate 2024 0 15 43200000) ''u1'' \<and>
   MockStorage_getExpenseBreakdown
     ([mkTransaction ''u1'' ''expense'' ''-2847.00'' (Some ''Engineering'') (mkDate 2024 0 10 0)] @
      mkTransaction ''u1'' ''transfer'' ''500.00'' (Some ''Engineering'') (mkDate 2024 0 11 0) #
      [mkTransaction ''u1'' ''income'' ''1000.00'' (Some ''Revenue'') (mkDate 2024 0 12 0)])
     (mkDate 2024 0 15 43200000) ''u1'' =
   MockStorage_getExpenseBreakdown
     ([mkTransaction ''u1'' ''expense'' ''-2847.00'' (Some ''Engineering'') (mkDate 2024 0 10 0)] @
      [mkTransaction ''u1'' ''income'' ''1000.00'' (Some ''Revenue'') (mkDate 2024 0 12 0)])
     (mkDate 2024 0 15 43200000) ''u1''"
  using C9_other_types_ignored [of DatabaseStorage_getFinancialSummary MockStorage_getExpenseBreakdown
      "mkTransaction ''u1'' ''transfer'' ''500.00'' (Some ''Engineering'') (mkDate 2024 0 11 0)"
      "[mkAccount ''u1'' ''45000.00'' True]"
      "[mkTransaction ''u1'' ''expense'' ''-2847.00'' (Some ''Engineering'') (mkDate 2024 0 10 0)]"
      "[mkTransaction ''u1'' ''income'' ''1000.00'' (Some ''Revenue'') (mkDate 2024 0 12 0)]"
      "mkDate 2024 0 15 43200000" "''u1''"]
  by (simp add: mkTransaction_def)

section \<open>The two implementations agree\<close>


end
